theory Spec2Isabelle
  imports Complex_Main "HOL-Library.Sublist" "HOL-Library.AList"
begin

section \<open>ApiMonitor: configuration management and the health engine\<close>

text \<open>
  The development follows \<^verbatim>\<open>apimonitor/config.py\<close>. Python exceptions are values of
  the type \<open>exn\<close>; a method that mutates \<open>self\<close> returns the configuration it leaves
  behind next to its result, so that the state after a raise can be stated too.
  Strings are byte lists; integers are unbounded, as Python's are. What the standard
  library, PyYAML and pydantic do is a parameter of the model.
\<close>

subsection \<open>Exceptions\<close>

text \<open>
  Every constructor is a subclass of Python's \<open>Exception\<close>. \<open>ConfigurationError\<close> is
  the repository's own (\<^verbatim>\<open>apimonitor/exceptions.py\<close>); \<open>ValidationError\<close> is pydantic's
  and carries one message per rejected field; the others come from the standard library,
  PyYAML and the json module.
\<close>

datatype exn =
    ConfigurationError string
  | ValueError string
  | ValidationError "string list"
  | YAMLError string
  | JSONDecodeError string
  | OSError string
  | TypeError string
  | AttributeError string

fun is_ConfigurationError :: "exn \<Rightarrow> bool" where
  "is_ConfigurationError (ConfigurationError m) = True"
| "is_ConfigurationError e = False"

text \<open>\<open>str(e)\<close>, as the f-strings of the source print an exception.\<close>

fun str_exn :: "exn \<Rightarrow> string" where
  "str_exn (ConfigurationError m) = m"
| "str_exn (ValueError m) = m"
| "str_exn (ValidationError ms) = concat ms"
| "str_exn (YAMLError m) = m"
| "str_exn (JSONDecodeError m) = m"
| "str_exn (OSError m) = m"
| "str_exn (TypeError m) = m"
| "str_exn (AttributeError m) = m"

subsection \<open>Data model\<close>

text \<open>
  Modelled from the spec: \<open>EndpointConfig\<close>, \<open>NotificationConfig\<close> and
  \<open>NotificationType\<close> are declared in \<^verbatim>\<open>apimonitor/models.py\<close>, which is not among the
  sources. The records carry the fields that the spec lists for EndpointSpec and for the
  NotificationChannel config and that the constructor calls of \<^verbatim>\<open>config.py\<close> name. The
  configuration code reads only the \<open>id\<close> of an endpoint (field \<open>id_ep\<close> here, since
  \<open>id\<close> is HOL's identity function).
\<close>

record endpoint_config =
  id_ep :: string
  url :: string
  http_method :: string
  headers :: "(string \<times> string) list"
  body :: "string option"
  timeout_seconds :: real
  check_interval_seconds :: int
  max_retries :: int
  expected_status_codes :: "int list"
  response_contains :: "string option"
  expected_response_time_ms :: "real option"
  sla_response_time_ms :: "real option"
  sla_uptime_percentage :: "real option"

datatype notification_type = CONSOLE | SLACK | DISCORD | EMAIL | WEBHOOK

record notification_config =
  ntype :: notification_type
  enabled :: bool
  config :: "(string \<times> string) list"
  on_failure :: bool
  on_recovery :: bool
  on_degraded :: bool
  max_notifications_per_hour :: int
  cooldown_minutes :: int

text \<open>\<open>class MonitorConfig(BaseModel)\<close>, field by field. A dict is an association list.\<close>

record monitor_config =
  log_level :: string
  log_file :: "string option"
  data_dir :: string
  max_history_days :: int
  default_timeout :: real
  default_interval :: int
  default_retries :: int
  dashboard_enabled :: bool
  dashboard_host :: string
  dashboard_port :: int
  dashboard_auth :: "(string \<times> string) list option"
  endpoints :: "endpoint_config list"
  notifications :: "(string \<times> notification_config) list"

subsection \<open>Endpoint list operations\<close>

text \<open>
  \<open>add_endpoint\<close>: the duplicate check over \<open>[ep.id for ep in self.endpoints]\<close>,
  then \<open>append\<close>. The second component is \<open>self\<close> after the call.
\<close>

definition add_endpoint ::
  "monitor_config \<Rightarrow> endpoint_config \<Rightarrow> (exn + unit) \<times> monitor_config" where
  "add_endpoint self endpoint =
     (let existing_ids = map id_ep (endpoints self) in
      if id_ep endpoint \<in> set existing_ids
      then (Inl (ConfigurationError
                  (''Endpoint ID '' @ [CHR 0x27] @ id_ep endpoint @ [CHR 0x27] @ '' already exists'')),
            self)
      else (Inr (), self\<lparr>endpoints := endpoints self @ [endpoint]\<rparr>))"

text \<open>\<open>get_endpoint\<close>: the \<open>for\<close> loop returns the first endpoint with the id.\<close>

fun get_endpoint_loop :: "endpoint_config list \<Rightarrow> string \<Rightarrow> endpoint_config option" where
  "get_endpoint_loop [] endpoint_id = None"
| "get_endpoint_loop (endpoint # rest) endpoint_id =
     (if id_ep endpoint = endpoint_id then Some endpoint
      else get_endpoint_loop rest endpoint_id)"

definition get_endpoint :: "monitor_config \<Rightarrow> string \<Rightarrow> endpoint_config option" where
  "get_endpoint self endpoint_id = get_endpoint_loop (endpoints self) endpoint_id"

text \<open>
  \<open>remove_endpoint\<close>: the loop over \<open>enumerate(self.endpoints)\<close> stops at the first
  index \<open>i\<close> whose endpoint has the id, and \<open>del self.endpoints[i]\<close> removes that
  position.
\<close>

fun remove_endpoint_loop :: "(nat \<times> endpoint_config) list \<Rightarrow> string \<Rightarrow> nat option" where
  "remove_endpoint_loop [] endpoint_id = None"
| "remove_endpoint_loop ((i, endpoint) # rest) endpoint_id =
     (if id_ep endpoint = endpoint_id then Some i
      else remove_endpoint_loop rest endpoint_id)"

definition del_at :: "nat \<Rightarrow> 'a list \<Rightarrow> 'a list" where
  "del_at i xs = take i xs @ drop (Suc i) xs"

definition remove_endpoint :: "monitor_config \<Rightarrow> string \<Rightarrow> bool \<times> monitor_config" where
  "remove_endpoint self endpoint_id =
     (case remove_endpoint_loop (enumerate 0 (endpoints self)) endpoint_id of
        Some i \<Rightarrow> (True, self\<lparr>endpoints := del_at i (endpoints self)\<rparr>)
      | None \<Rightarrow> (False, self))"

text \<open>
  A caller's sequence of additions and removals. A caller that catches the
  \<open>ConfigurationError\<close> of a rejected addition goes on with the configuration as the
  call left it.
\<close>

datatype endpoint_op = Add endpoint_config | Remove string

fun apply_endpoint_op :: "monitor_config \<Rightarrow> endpoint_op \<Rightarrow> monitor_config" where
  "apply_endpoint_op c (Add e) = snd (add_endpoint c e)"
| "apply_endpoint_op c (Remove i) = snd (remove_endpoint c i)"

definition run_endpoint_ops :: "monitor_config \<Rightarrow> endpoint_op list \<Rightarrow> monitor_config" where
  "run_endpoint_ops c ops = foldl apply_endpoint_op c ops"

subsection \<open>Validators and construction\<close>

text \<open>
  \<open>str.upper\<close> follows the Unicode case mapping, which is the library's and not this
  repository's: it is the parameter \<open>upper\<close> of the validator and of the constructor.
  A string is the list of the bytes of its UTF-8 encoding.
\<close>

definition valid_levels :: "string list" where
  "valid_levels = [''DEBUG'', ''INFO'', ''WARNING'', ''ERROR'', ''CRITICAL'']"

text \<open>The two \<open>@validator\<close> methods; a \<open>ValueError\<close> is what each raises.\<close>

definition validate_log_level :: "(string \<Rightarrow> string) \<Rightarrow> string \<Rightarrow> exn + string" where
  "validate_log_level upper v =
     (if upper v \<notin> set valid_levels
      then Inl (ValueError
        ''Log level must be one of ['DEBUG', 'INFO', 'WARNING', 'ERROR', 'CRITICAL']'')
      else Inr (upper v))"

definition validate_history_days :: "int \<Rightarrow> exn + int" where
  "validate_history_days v =
     (if v < 1 then Inl (ValueError ''max_history_days must be at least 1'')
      else Inr v)"

text \<open>
  The keyword arguments of \<open>MonitorConfig(...)\<close>, already of the declared field types:
  \<open>None\<close> is an argument that was not passed.
\<close>

record monitor_config_kwargs =
  kw_log_level :: "string option"
  kw_log_file :: "string option"
  kw_data_dir :: "string option"
  kw_max_history_days :: "int option"
  kw_default_timeout :: "real option"
  kw_default_interval :: "int option"
  kw_default_retries :: "int option"
  kw_dashboard_enabled :: "bool option"
  kw_dashboard_host :: "string option"
  kw_dashboard_port :: "int option"
  kw_dashboard_auth :: "(string \<times> string) list option"
  kw_endpoints :: "endpoint_config list option"
  kw_notifications :: "(string \<times> notification_config) list option"

definition no_kwargs :: monitor_config_kwargs where
  "no_kwargs =
     \<lparr>kw_log_level = None, kw_log_file = None, kw_data_dir = None,
      kw_max_history_days = None, kw_default_timeout = None, kw_default_interval = None,
      kw_default_retries = None, kw_dashboard_enabled = None, kw_dashboard_host = None,
      kw_dashboard_port = None, kw_dashboard_auth = None, kw_endpoints = None,
      kw_notifications = None\<rparr>"

definition or_default :: "'a option \<Rightarrow> 'a \<Rightarrow> 'a" where
  "or_default v d = (case v of None \<Rightarrow> d | Some x \<Rightarrow> x)"

text \<open>
  pydantic runs a field's validator on a value that was passed and takes the declared
  default, unvalidated, for one that was not. The errors of all fields are collected into
  one \<open>ValidationError\<close>.
\<close>

definition field_result :: "'a option \<Rightarrow> 'a \<Rightarrow> ('a \<Rightarrow> exn + 'a) \<Rightarrow> exn + 'a" where
  "field_result v d validator = (case v of None \<Rightarrow> Inr d | Some x \<Rightarrow> validator x)"

definition field_errors :: "string \<Rightarrow> exn + 'a \<Rightarrow> string list" where
  "field_errors name r = (case r of Inl e \<Rightarrow> [name @ '': '' @ str_exn e] | Inr x \<Rightarrow> [])"

definition MonitorConfig ::
  "(string \<Rightarrow> string) \<Rightarrow> monitor_config_kwargs \<Rightarrow> exn + monitor_config" where
  "MonitorConfig upper kw =
     (let r_log_level = field_result (kw_log_level kw) ''INFO'' (validate_log_level upper);
          r_max_history_days = field_result (kw_max_history_days kw) 30 validate_history_days
      in case (r_log_level, r_max_history_days) of
           (Inr level, Inr days) \<Rightarrow>
             Inr \<lparr>log_level = level,
                  log_file = kw_log_file kw,
                  data_dir = or_default (kw_data_dir kw) ''./apimonitor_data'',
                  max_history_days = days,
                  default_timeout = or_default (kw_default_timeout kw) 10,
                  default_interval = or_default (kw_default_interval kw) 300,
                  default_retries = or_default (kw_default_retries kw) 3,
                  dashboard_enabled = or_default (kw_dashboard_enabled kw) False,
                  dashboard_host = or_default (kw_dashboard_host kw) ''127.0.0.1'',
                  dashboard_port = or_default (kw_dashboard_port kw) 8080,
                  dashboard_auth = kw_dashboard_auth kw,
                  endpoints = or_default (kw_endpoints kw) [],
                  notifications = or_default (kw_notifications kw) []\<rparr>
         | _ \<Rightarrow>
             Inl (ValidationError
                   (field_errors ''log_level'' r_log_level @
                    field_errors ''max_history_days'' r_max_history_days)))"

text \<open>
  Example values in the shape of \<open>create_example_config\<close>: its two endpoints and its
  console channel. The defaults of the fields that the calls do not pass are declared in
  \<^verbatim>\<open>models.py\<close>; the values written here for them are examples only.
\<close>

definition api_health :: endpoint_config where
  "api_health =
     \<lparr>id_ep = ''api_health'', url = ''https://httpbin.org/status/200'',
      http_method = ''GET'', headers = [], body = None, timeout_seconds = 5,
      check_interval_seconds = 60, max_retries = 3, expected_status_codes = [200],
      response_contains = None, expected_response_time_ms = None,
      sla_response_time_ms = None, sla_uptime_percentage = None\<rparr>"

definition api_slow :: endpoint_config where
  "api_slow =
     \<lparr>id_ep = ''api_slow'', url = ''https://httpbin.org/delay/2'',
      http_method = ''GET'', headers = [], body = None, timeout_seconds = 10,
      check_interval_seconds = 300, max_retries = 3, expected_status_codes = [200],
      response_contains = None, expected_response_time_ms = None,
      sla_response_time_ms = Some 3000, sla_uptime_percentage = None\<rparr>"

definition console_channel :: notification_config where
  "console_channel =
     \<lparr>ntype = CONSOLE, enabled = True, config = [], on_failure = True,
      on_recovery = True, on_degraded = False, max_notifications_per_hour = 10,
      cooldown_minutes = 5\<rparr>"

definition example_config :: monitor_config where
  "example_config =
     \<lparr>log_level = ''INFO'', log_file = None, data_dir = ''./apimonitor_data'',
      max_history_days = 30, default_timeout = 10, default_interval = 300,
      default_retries = 3, dashboard_enabled = True, dashboard_host = ''127.0.0.1'',
      dashboard_port = 8080, dashboard_auth = None,
      endpoints = [api_health, api_slow],
      notifications = [(''console'', console_channel)]\<rparr>"

subsection \<open>Health classification\<close>

text \<open>
  Modelled from the spec: the classifier lives in \<^verbatim>\<open>apimonitor/endpoint.py\<close> and
  \<^verbatim>\<open>apimonitor/models.py\<close>, which are not among the sources. \<open>check_outcome\<close> is the
  spec's CheckOutcome (section 3) with the response body that rule 3 reads, and
  \<open>classify\<close> is the ordered rule list of section 4.2. Latencies are real numbers of
  milliseconds; a tie with a threshold passes.
\<close>

datatype health_verdict = HEALTHY | DEGRADED | UNHEALTHY

record check_outcome =
  timestamp :: int
  success :: bool
  status_code :: "int option"
  latency_ms :: "real option"
  response_body :: "string option"
  error :: "string option"

definition status_unexpected :: "endpoint_config \<Rightarrow> check_outcome \<Rightarrow> bool" where
  "status_unexpected spec outcome =
     (case status_code outcome of
        None \<Rightarrow> True
      | Some code \<Rightarrow> code \<notin> set (expected_status_codes spec))"

definition body_missing :: "endpoint_config \<Rightarrow> check_outcome \<Rightarrow> bool" where
  "body_missing spec outcome =
     (case response_contains spec of
        None \<Rightarrow> False
      | Some needle \<Rightarrow>
          (case response_body outcome of
             None \<Rightarrow> True
           | Some text \<Rightarrow> \<not> sublist needle text))"

definition exceeds :: "real option \<Rightarrow> real option \<Rightarrow> bool" where
  "exceeds threshold latency =
     (case (threshold, latency) of
        (Some limit, Some l) \<Rightarrow> limit < l
      | _ \<Rightarrow> False)"

definition classify :: "endpoint_config \<Rightarrow> check_outcome \<Rightarrow> health_verdict" where
  "classify spec outcome =
     (if \<not> success outcome then UNHEALTHY
      else if status_unexpected spec outcome then UNHEALTHY
      else if body_missing spec outcome then UNHEALTHY
      else if exceeds (sla_response_time_ms spec) (latency_ms outcome) then UNHEALTHY
      else if exceeds (expected_response_time_ms spec) (latency_ms outcome) then DEGRADED
      else HEALTHY)"

subsection \<open>Notification governor\<close>

text \<open>
  Modelled from the spec: the governor lives in \<^verbatim>\<open>apimonitor/notifications.py\<close>, which is
  not among the sources. The definitions follow section 4.5: an enabled channel whose
  trigger flag matches the kind of the event passes the cooldown gate and then the rate
  gate before the external notifier is called; a suppressed event leaves the throttle
  state as it was. Time is in seconds; the throttle state is keyed by channel name and
  endpoint id. \<open>Delivered\<close> is a call of the notifier's \<open>send\<close>: by section 4.5 the
  bookkeeping is the same whether that call succeeds or fails.
\<close>

datatype event_kind = Recovery | Degradation | Failure

record health_event =
  endpoint_id :: string
  previous_verdict :: "health_verdict option"
  new_verdict :: health_verdict
  event_timestamp :: int

definition kind_of :: "health_event \<Rightarrow> event_kind" where
  "kind_of event =
     (case new_verdict event of
        HEALTHY \<Rightarrow> Recovery
      | DEGRADED \<Rightarrow> Degradation
      | UNHEALTHY \<Rightarrow> Failure)"

definition trigger_matches :: "notification_config \<Rightarrow> health_event \<Rightarrow> bool" where
  "trigger_matches channel event =
     (case kind_of event of
        Failure \<Rightarrow> on_failure channel
      | Recovery \<Rightarrow> on_recovery channel
      | Degradation \<Rightarrow> on_degraded channel)"

record throttle_state =
  window :: "string \<times> string \<Rightarrow> int list"
  last_sent_at :: "string \<times> string \<Rightarrow> int option"


definition in_window :: "int \<Rightarrow> int list \<Rightarrow> int list" where
  "in_window now sends = filter (\<lambda>t. now - t < 3600) sends"

definition cooldown_blocks ::
  "notification_config \<Rightarrow> throttle_state \<Rightarrow> string \<times> string \<Rightarrow> int \<Rightarrow> bool" where
  "cooldown_blocks channel st key now =
     (case last_sent_at st key of
        None \<Rightarrow> False
      | Some sent \<Rightarrow> now - sent < cooldown_minutes channel * 60)"

definition rate_blocks ::
  "notification_config \<Rightarrow> throttle_state \<Rightarrow> string \<times> string \<Rightarrow> int \<Rightarrow> bool" where
  "rate_blocks channel st key now =
     (max_notifications_per_hour channel \<le> int (length (in_window now (window st key))))"

definition record_send :: "throttle_state \<Rightarrow> string \<times> string \<Rightarrow> int \<Rightarrow> throttle_state" where
  "record_send st key now =
     st\<lparr>window := (window st)(key := now # in_window now (window st key)),
        last_sent_at := (last_sent_at st)(key := Some now)\<rparr>"

datatype decision = Delivered | Suppressed | Skipped

definition dispatch_channel ::
  "string \<times> notification_config \<Rightarrow> throttle_state \<Rightarrow> int \<times> health_event \<Rightarrow>
     decision \<times> throttle_state" where
  "dispatch_channel named_channel st timed_event =
     (let name = fst named_channel; channel = snd named_channel;
          now = fst timed_event; event = snd timed_event;
          key = (name, endpoint_id event)
      in if \<not> enabled channel then (Skipped, st)
         else if \<not> trigger_matches channel event then (Skipped, st)
         else if cooldown_blocks channel st key now then (Suppressed, st)
         else if rate_blocks channel st key now then (Suppressed, st)
         else (Delivered, record_send st key now))"


text \<open>
  \<open>dispatch\<close>: one event offered to every configured channel, in order; the result is
  the list of channel names whose notifier was called.
\<close>

fun dispatch ::
  "int \<times> health_event \<Rightarrow> (string \<times> notification_config) list \<Rightarrow> throttle_state \<Rightarrow>
     string list \<times> throttle_state" where
  "dispatch timed_event [] st = ([], st)"
| "dispatch timed_event (named_channel # rest) st =
     (let (d, st') = dispatch_channel named_channel st timed_event;
          (notified, st'') = dispatch timed_event rest st'
      in (if d = Delivered then fst named_channel # notified else notified, st''))"

subsection \<open>Loading and saving\<close>

text \<open>
  What \<open>yaml.safe_load\<close> and \<open>json.load\<close> return. The keys of a mapping are
  strings, as the annotation \<open>Dict[str, Any]\<close> of \<open>parse_config_data\<close> has them.
\<close>

datatype pyobj =
    PyNone
  | PyBool bool
  | PyInt int
  | PyFloat real
  | PyStr string
  | PyList "pyobj list"
  | PyDict "(string \<times> pyobj) list"

text \<open>
  The libraries and the classes of \<^verbatim>\<open>models.py\<close> that the code calls are parameters:
  \<open>str.upper\<close> and \<open>str.lower\<close>, the \<open>suffix\<close> of \<open>Path(file_path)\<close>, the two
  parsers, the two serialisers (each returns the text it wrote and the exception it
  raised, if any), pydantic's \<open>.dict()\<close>, the constructors \<open>EndpointConfig(**d)\<close> and
  \<open>NotificationConfig(**d)\<close>, and pydantic's conversion of the remaining entries of the
  mapping to values of the declared field types.
\<close>

record env =
  str_upper :: "string \<Rightarrow> string"
  str_lower :: "string \<Rightarrow> string"
  path_suffix :: "string \<Rightarrow> string"
  yaml_safe_load :: "string \<Rightarrow> exn + pyobj"
  json_load :: "string \<Rightarrow> exn + pyobj"
  yaml_dump :: "pyobj \<Rightarrow> string \<times> exn option"
  json_dump :: "pyobj \<Rightarrow> string \<times> exn option"
  model_dict :: "monitor_config \<Rightarrow> pyobj"
  EndpointConfig :: "(string \<times> pyobj) list \<Rightarrow> exn + endpoint_config"
  NotificationConfig :: "(string \<times> pyobj) list \<Rightarrow> exn + notification_config"
  coerce_fields :: "(string \<times> pyobj) list \<Rightarrow> exn + monitor_config_kwargs"

text \<open>
  The file system, as \<open>Path.exists()\<close> and \<open>open(path, 'r')\<close> see a path. The
  \<open>stat\<close> call of \<open>exists()\<close> fails with an \<open>OSError\<close> that \<open>exists()\<close> raises again
  (every error number but ENOENT, ENOTDIR, EBADF and ELOOP: a name that is too long, a
  directory that may not be searched), or the path is missing, or it exists and cannot be
  read (a directory, a permission), or it holds a text. \<open>mkdir_error\<close> and
  \<open>open_write_error\<close> say which exception, if any,
  \<open>file_path.parent.mkdir(parents=True, exist_ok=True)\<close> and \<open>open(file_path, 'w')\<close>
  raise for a path \<open>file_path\<close>.
\<close>

datatype file_entry = StatError exn | Missing | Unreadable exn | File string

record world =
  files :: "string \<Rightarrow> file_entry"
  mkdir_error :: "string \<Rightarrow> exn option"
  open_write_error :: "string \<Rightarrow> exn option"

text \<open>The operations of the parsed data that \<open>parse_config_data\<close> uses.\<close>

definition py_get :: "pyobj \<Rightarrow> string \<Rightarrow> pyobj \<Rightarrow> exn + pyobj" where
  "py_get d key dflt =
     (case d of
        PyDict kvs \<Rightarrow> Inr (case map_of kvs key of None \<Rightarrow> dflt | Some v \<Rightarrow> v)
      | _ \<Rightarrow> Inl (AttributeError ''object has no attribute get''))"

definition py_iter :: "pyobj \<Rightarrow> exn + pyobj list" where
  "py_iter v =
     (case v of
        PyList xs \<Rightarrow> Inr xs
      | PyDict kvs \<Rightarrow> Inr (map (\<lambda>kv. PyStr (fst kv)) kvs)
      | PyStr cs \<Rightarrow> Inr (map (\<lambda>c. PyStr [c]) cs)
      | _ \<Rightarrow> Inl (TypeError ''object is not iterable''))"

definition py_items :: "pyobj \<Rightarrow> exn + (string \<times> pyobj) list" where
  "py_items v =
     (case v of
        PyDict kvs \<Rightarrow> Inr kvs
      | _ \<Rightarrow> Inl (AttributeError ''object has no attribute items''))"

definition py_kwargs :: "pyobj \<Rightarrow> exn + (string \<times> pyobj) list" where
  "py_kwargs v =
     (case v of
        PyDict kvs \<Rightarrow> Inr kvs
      | _ \<Rightarrow> Inl (TypeError ''argument after ** must be a mapping''))"

text \<open>The two loops of \<open>parse_config_data\<close>; the first exception ends a loop.\<close>

fun parse_endpoints :: "env \<Rightarrow> pyobj list \<Rightarrow> exn + endpoint_config list" where
  "parse_endpoints env [] = Inr []"
| "parse_endpoints env (ep_data # rest) =
     (case py_kwargs ep_data of
        Inl e \<Rightarrow> Inl e
      | Inr kvs \<Rightarrow>
          (case EndpointConfig env kvs of
             Inl e \<Rightarrow> Inl e
           | Inr ep \<Rightarrow>
               (case parse_endpoints env rest of
                  Inl e \<Rightarrow> Inl e
                | Inr eps \<Rightarrow> Inr (ep # eps))))"

fun parse_notifications ::
  "env \<Rightarrow> (string \<times> notification_config) list \<Rightarrow> (string \<times> pyobj) list \<Rightarrow>
     exn + (string \<times> notification_config) list" where
  "parse_notifications env acc [] = Inr acc"
| "parse_notifications env acc ((name, notif_data) # rest) =
     (case py_kwargs notif_data of
        Inl e \<Rightarrow> Inl e
      | Inr kvs \<Rightarrow>
          (case NotificationConfig env kvs of
             Inl e \<Rightarrow> Inl e
           | Inr n \<Rightarrow> parse_notifications env (AList.update name n acc) rest))"

text \<open>
  The body of the \<open>try\<close> of \<open>parse_config_data\<close>, and the method with its handler.
  In \<open>cls(**config_data)\<close> the entries \<open>endpoints\<close> and \<open>notifications\<close> are the
  objects that the loops built; the other entries are the raw values of the file, which
  \<open>coerce_fields\<close> converts.
\<close>

definition parse_config_data_try :: "env \<Rightarrow> pyobj \<Rightarrow> exn + monitor_config" where
  "parse_config_data_try env data =
     (case py_get data ''endpoints'' (PyList []) of
        Inl e \<Rightarrow> Inl e
      | Inr eps_raw \<Rightarrow>
     (case py_iter eps_raw of
        Inl e \<Rightarrow> Inl e
      | Inr ep_items \<Rightarrow>
     (case parse_endpoints env ep_items of
        Inl e \<Rightarrow> Inl e
      | Inr eps \<Rightarrow>
     (case py_get data ''notifications'' (PyDict []) of
        Inl e \<Rightarrow> Inl e
      | Inr notifs_raw \<Rightarrow>
     (case py_items notifs_raw of
        Inl e \<Rightarrow> Inl e
      | Inr notif_items \<Rightarrow>
     (case parse_notifications env [] notif_items of
        Inl e \<Rightarrow> Inl e
      | Inr notifs \<Rightarrow>
     (case py_kwargs data of
        Inl e \<Rightarrow> Inl e
      | Inr config_data \<Rightarrow>
     (case coerce_fields env
             (filter (\<lambda>kv. fst kv \<notin> set [''endpoints'', ''notifications'']) config_data) of
        Inl e \<Rightarrow> Inl e
      | Inr kw \<Rightarrow>
          MonitorConfig (str_upper env)
            (kw\<lparr>kw_endpoints := Some eps, kw_notifications := Some notifs\<rparr>)))))))))"

definition parse_config_data :: "env \<Rightarrow> pyobj \<Rightarrow> exn + monitor_config" where
  "parse_config_data env data =
     (case parse_config_data_try env data of
        Inl e \<Rightarrow> Inl (ConfigurationError (''Error parsing configuration: '' @ str_exn e))
      | Inr c \<Rightarrow> Inr c)"

text \<open>
  \<open>from_file\<close>. The existence test comes before the \<open>try\<close>, so what \<open>exists()\<close>
  raises leaves \<open>from_file\<close> as it is; the file is opened before its suffix is looked
  at; the \<open>raise\<close> for an unsupported suffix and the call of
  \<open>parse_config_data\<close> are inside the \<open>try\<close>, so the last handler wraps what they
  raise once more.
\<close>

definition load_data :: "env \<Rightarrow> string \<Rightarrow> string \<Rightarrow> exn + pyobj" where
  "load_data env file_path text =
     (if str_lower env (path_suffix env file_path) \<in> set [''.yaml'', ''.yml'']
      then yaml_safe_load env text
      else if str_lower env (path_suffix env file_path) = ''.json'' then json_load env text
      else Inl (ConfigurationError
                 (''Unsupported file format: '' @ path_suffix env file_path)))"

definition from_file_try :: "env \<Rightarrow> world \<Rightarrow> string \<Rightarrow> exn + monitor_config" where
  "from_file_try env w file_path =
     (case files w file_path of
        StatError e \<Rightarrow> Inl e
      | Missing \<Rightarrow> Inl (OSError (''No such file or directory: '' @ file_path))
      | Unreadable e \<Rightarrow> Inl e
      | File text \<Rightarrow>
          (case load_data env file_path text of
             Inl e \<Rightarrow> Inl e
           | Inr data \<Rightarrow> parse_config_data env data))"

fun from_file_except :: "exn \<Rightarrow> exn" where
  "from_file_except (YAMLError m) =
     ConfigurationError (''Invalid YAML in config file: '' @ m)"
| "from_file_except (JSONDecodeError m) =
     ConfigurationError (''Invalid JSON in config file: '' @ m)"
| "from_file_except e =
     ConfigurationError (''Error reading config file: '' @ str_exn e)"

definition from_file :: "env \<Rightarrow> world \<Rightarrow> string \<Rightarrow> exn + monitor_config" where
  "from_file env w file_path =
     (case files w file_path of
        StatError e \<Rightarrow> Inl e
      | Missing \<Rightarrow>
          Inl (ConfigurationError (''Configuration file not found: '' @ file_path))
      | _ \<Rightarrow>
          (case from_file_try env w file_path of
             Inl e \<Rightarrow> Inl (from_file_except e)
           | Inr c \<Rightarrow> Inr c))"

text \<open>
  \<open>to_file\<close>. \<open>open(path, 'w')\<close> leaves an empty file behind before the suffix is
  looked at; a serialiser leaves the text it wrote. The result is paired with the file
  system after the call.
\<close>

definition write_file :: "world \<Rightarrow> string \<Rightarrow> string \<Rightarrow> world" where
  "write_file w file_path text = w\<lparr>files := (files w)(file_path := File text)\<rparr>"

definition dump_result ::
  "world \<Rightarrow> string \<Rightarrow> string \<times> exn option \<Rightarrow> (exn + unit) \<times> world" where
  "dump_result w file_path r =
     (case snd r of
        None \<Rightarrow> (Inr (), write_file w file_path (fst r))
      | Some e \<Rightarrow> (Inl e, write_file w file_path (fst r)))"

definition to_file_try ::
  "env \<Rightarrow> world \<Rightarrow> pyobj \<Rightarrow> string \<Rightarrow> (exn + unit) \<times> world" where
  "to_file_try env w data file_path =
     (case mkdir_error w file_path of
        Some e \<Rightarrow> (Inl e, w)
      | None \<Rightarrow>
          (case open_write_error w file_path of
             Some e \<Rightarrow> (Inl e, w)
           | None \<Rightarrow>
               (let w' = write_file w file_path []
                in if str_lower env (path_suffix env file_path) \<in> set [''.yaml'', ''.yml'']
                   then dump_result w' file_path (yaml_dump env data)
                   else if str_lower env (path_suffix env file_path) = ''.json''
                   then dump_result w' file_path (json_dump env data)
                   else (Inl (ConfigurationError
                                (''Unsupported file format: '' @ path_suffix env file_path)),
                         w'))))"

definition to_file ::
  "env \<Rightarrow> world \<Rightarrow> monitor_config \<Rightarrow> string \<Rightarrow> (exn + unit) \<times> world" where
  "to_file env w self file_path =
     (let data = model_dict env self
      in case to_file_try env w data file_path of
           (Inl e, w') \<Rightarrow>
             (Inl (ConfigurationError (''Error writing config file: '' @ str_exn e)), w')
         | (Inr u, w') \<Rightarrow> (Inr (), w'))"

text \<open>
  Instances of the library parameters for evaluation. \<open>example_upper\<close> and
  \<open>example_lower\<close> change the case of the ASCII letters, and \<open>example_upper\<close> also
  maps the dotless i (U+0131, the bytes C4 B1 in UTF-8) to I, as \<open>str.upper\<close> does;
  they stand for \<open>str.upper\<close> and \<open>str.lower\<close> on the strings evaluated below only.
  \<open>example_suffix\<close> computes a suffix the way pathlib does for a POSIX path: empty
  components and \<open>.\<close> components are dropped, and the suffix is the final component
  from its last dot on, unless that dot is its first or its last character; it stands for
  \<open>Path(p).suffix\<close> on the paths evaluated below.
\<close>

definition upper_char :: "char \<Rightarrow> char" where
  "upper_char c =
     (case map_of (zip ''abcdefghijklmnopqrstuvwxyz'' ''ABCDEFGHIJKLMNOPQRSTUVWXYZ'') c of
        Some u \<Rightarrow> u
      | None \<Rightarrow> c)"

definition lower_char :: "char \<Rightarrow> char" where
  "lower_char c =
     (case map_of (zip ''ABCDEFGHIJKLMNOPQRSTUVWXYZ'' ''abcdefghijklmnopqrstuvwxyz'') c of
        Some l \<Rightarrow> l
      | None \<Rightarrow> c)"

fun example_upper :: "string \<Rightarrow> string" where
  "example_upper [] = []"
| "example_upper [c] = [upper_char c]"
| "example_upper (c # d # cs) =
     (if c = CHR 0xC4 \<and> d = CHR 0xB1 then CHR ''I'' # example_upper cs
      else upper_char c # example_upper (d # cs))"

definition example_lower :: "string \<Rightarrow> string" where
  "example_lower s = map lower_char s"

fun split_slash :: "string \<Rightarrow> string \<Rightarrow> string list" where
  "split_slash cur [] = [rev cur]"
| "split_slash cur (c # cs) =
     (if c = CHR ''/'' then rev cur # split_slash [] cs else split_slash (c # cur) cs)"

definition path_name :: "string \<Rightarrow> string" where
  "path_name p =
     (case rev (filter (\<lambda>part. part \<noteq> [] \<and> part \<noteq> ''.'') (split_slash [] p)) of
        [] \<Rightarrow> []
      | name # _ \<Rightarrow> name)"

definition suffix_of_name :: "string \<Rightarrow> string" where
  "suffix_of_name name =
     (let tail = rev (takeWhile (\<lambda>c. c \<noteq> CHR ''.'') (rev name))
      in if length tail = length name then []
         else if length tail = 0 then []
         else if length tail + 1 = length name then []
         else CHR ''.'' # tail)"

definition example_suffix :: "string \<Rightarrow> string" where
  "example_suffix p = suffix_of_name (path_name p)"

text \<open>
  A concrete environment and file system for evaluation: parsers that accept the texts
  \<open>good\<close> and (YAML only) \<open>loud\<close>, serialisers that always write \<open>good\<close>, and
  constructors that read the \<open>id\<close>, the \<open>type\<close> and the \<open>log_level\<close> entries only.
  In the file system a path whose final component is longer than 255 bytes cannot be
  looked up: \<open>stat\<close> fails with ENAMETOOLONG.
\<close>

definition long_name :: string where
  "long_name = replicate 300 (CHR ''a'') @ ''.yaml''"

definition example_data :: pyobj where
  "example_data =
     PyDict [(''log_level'', PyStr ''debug''),
             (''endpoints'', PyList [PyDict [(''id'', PyStr ''api_health'')]])]"

definition example_env :: env where
  "example_env =
     \<lparr>str_upper = example_upper,
      str_lower = example_lower,
      path_suffix = example_suffix,
      yaml_safe_load =
        (\<lambda>text. if text = ''good'' then Inr example_data
                else if text = ''loud'' then Inr (PyDict [(''log_level'', PyStr ''loud'')])
                else Inl (YAMLError ''bad'')),
      json_load =
        (\<lambda>text. if text = ''good'' then Inr example_data else Inl (JSONDecodeError ''bad'')),
      yaml_dump = (\<lambda>d. (''good'', None)),
      json_dump = (\<lambda>d. (''good'', None)),
      model_dict = (\<lambda>c. example_data),
      EndpointConfig =
        (\<lambda>kvs. case map_of kvs ''id'' of
                  Some (PyStr i) \<Rightarrow> Inr (api_health\<lparr>id_ep := i\<rparr>)
                | _ \<Rightarrow> Inl (ValidationError [''id: field required''])),
      NotificationConfig =
        (\<lambda>kvs. case map_of kvs ''type'' of
                  Some (PyStr t) \<Rightarrow> Inr console_channel
                | _ \<Rightarrow> Inl (ValidationError [''type: field required''])),
      coerce_fields =
        (\<lambda>kvs. case map_of kvs ''log_level'' of
                  Some (PyStr l) \<Rightarrow> Inr (no_kwargs\<lparr>kw_log_level := Some l\<rparr>)
                | _ \<Rightarrow> Inr no_kwargs)\<rparr>"

definition example_world :: world where
  "example_world =
     \<lparr>files = (\<lambda>p. if 255 < length (path_name p)
                    then StatError (OSError (''[Errno 36] File name too long: '' @
                                               [CHR 0x27] @ p @ [CHR 0x27]))
                    else if p = ''conf/monitor.yaml'' then File ''good''
                    else if p = ''conf/broken.json'' then File ''{''
                    else if p = ''conf/loud.yml'' then File ''loud''
                    else if p = ''conf/notes.txt'' then File ''good''
                    else if p = ''conf'' then Unreadable (OSError ''Is a directory'')
                    else Missing),
      mkdir_error = (\<lambda>p. None),
      open_write_error =
        (\<lambda>p. if p = ''conf'' then Some (OSError ''Is a directory'') else None)\<rparr>"

text \<open>
  Example values for evaluation: a probe that failed although it carries the status code,
  latency and body of a good response; a channel limited to two notifications per hour
  with a cooldown of five minutes; a failure and a recovery of one endpoint.
\<close>

definition failed_outcome :: check_outcome where
  "failed_outcome =
     \<lparr>timestamp = 0, success = False, status_code = Some 200, latency_ms = Some 50,
      response_body = Some ''ok'', error = None\<rparr>"




section \<open>Properties\<close>

subsection \<open>Lookup, removal and the enumerate loop\<close>

lemma get_endpoint_loop_None:
  "i \<notin> id_ep ` set xs \<Longrightarrow> get_endpoint_loop xs i = None"
  by (induction xs) auto

lemma get_endpoint_loop_append:
  "i \<notin> id_ep ` set xs \<Longrightarrow> get_endpoint_loop (xs @ ys) i = get_endpoint_loop ys i"
  by (induction xs) auto

lemma remove_endpoint_loop_None:
  "i \<notin> id_ep ` set xs \<Longrightarrow> remove_endpoint_loop (enumerate n xs) i = None"
  by (induction xs arbitrary: n) auto

lemma remove_endpoint_loop_first:
  "i \<notin> id_ep ` set pre \<Longrightarrow> id_ep ep = i \<Longrightarrow>
     remove_endpoint_loop (enumerate n (pre @ ep # post)) i = Some (n + length pre)"
  by (induction pre arbitrary: n) auto

lemma del_at_middle: "del_at (length pre) (pre @ x # post) = pre @ post"
  by (simp add: del_at_def)

lemma distinct_take_drop_Suc:
  assumes "distinct ys"
  shows "distinct (take i ys @ drop (Suc i) ys)"
proof -
  have "distinct (take i ys @ drop i ys)"
    using assms by simp
  then have disj: "set (take i ys) \<inter> set (drop i ys) = {}"
    by (simp only: distinct_append)
  have "set (drop (Suc i) ys) \<subseteq> set (drop i ys)"
    by (rule set_drop_subset_set_drop) simp
  with disj have "set (take i ys) \<inter> set (drop (Suc i) ys) = {}"
    by blast
  with assms show ?thesis
    by simp
qed

lemma distinct_del_at:
  assumes "distinct (map f xs)"
  shows "distinct (map f (del_at i xs))"
proof -
  have "map f (del_at i xs) = take i (map f xs) @ drop (Suc i) (map f xs)"
    by (simp add: del_at_def take_map drop_map)
  with distinct_take_drop_Suc [OF assms, of i] show ?thesis
    by simp
qed

lemma add_endpoint_distinct:
  "distinct (map id_ep (endpoints c)) \<Longrightarrow>
     distinct (map id_ep (endpoints (snd (add_endpoint c e))))"
  by (simp add: add_endpoint_def)

lemma remove_endpoint_distinct:
  "distinct (map id_ep (endpoints c)) \<Longrightarrow>
     distinct (map id_ep (endpoints (snd (remove_endpoint c i))))"
  by (simp add: remove_endpoint_def distinct_del_at split: option.splits)

lemma apply_endpoint_op_distinct:
  "distinct (map id_ep (endpoints c)) \<Longrightarrow>
     distinct (map id_ep (endpoints (apply_endpoint_op c x)))"
  by (cases x) (simp_all add: add_endpoint_distinct remove_endpoint_distinct)

lemma run_endpoint_ops_distinct:
  "distinct (map id_ep (endpoints c)) \<Longrightarrow>
     distinct (map id_ep (endpoints (run_endpoint_ops c ops)))"
  unfolding run_endpoint_ops_def
proof (induction ops arbitrary: c)
  case Nil
  then show ?case by simp
next
  case (Cons x ops)
  from Cons.prems have "distinct (map id_ep (endpoints (apply_endpoint_op c x)))"
    by (rule apply_endpoint_op_distinct)
  then show ?case
    using Cons.IH by simp
qed

subsection \<open>Claims about the endpoint list\<close>

text \<open>
  C1. \<open>add_endpoint c e\<close> raises, and what it raises is a \<open>ConfigurationError\<close>, if and
  only if some endpoint of \<open>c.endpoints\<close> has the id of \<open>e\<close>; when it does not raise,
  \<open>e\<close> has been appended at the end of \<open>c.endpoints\<close> and nothing else has changed.
\<close>

theorem add_endpoint_raises_iff_duplicate:
  "((\<exists>msg. fst (add_endpoint c e) = Inl (ConfigurationError msg)) \<longleftrightarrow>
      (\<exists>ep \<in> set (endpoints c). id_ep ep = id_ep e)) \<and>
   (isl (fst (add_endpoint c e)) \<longleftrightarrow> (\<exists>ep \<in> set (endpoints c). id_ep ep = id_ep e)) \<and>
   (\<not> isl (fst (add_endpoint c e)) \<longrightarrow>
      add_endpoint c e = (Inr (), c\<lparr>endpoints := endpoints c @ [e]\<rparr>))"
  by (auto simp: add_endpoint_def Let_def image_iff)

theorem add_endpoint_raises_iff_duplicate_witness:
  "fst (add_endpoint example_config api_health) =
     Inl (ConfigurationError ''Endpoint ID 'api_health' already exists'') \<and>
   add_endpoint (example_config\<lparr>endpoints := [api_slow]\<rparr>) api_health =
     (Inr (), example_config\<lparr>endpoints := [api_slow, api_health]\<rparr>)"
  using add_endpoint_raises_iff_duplicate [of example_config api_health]
    add_endpoint_raises_iff_duplicate [of "example_config\<lparr>endpoints := [api_slow]\<rparr>" api_health]
  by (simp add: add_endpoint_def example_config_def api_health_def api_slow_def)

text \<open>
  C7. If no endpoint of \<open>c\<close> has the id of \<open>e\<close>, then \<open>add_endpoint c e\<close> succeeds and
  \<open>get_endpoint\<close> with that id returns \<open>e\<close> right afterwards; and \<open>get_endpoint\<close>
  returns \<open>None\<close> for every id that no endpoint of the list has.
\<close>

theorem get_endpoint_after_add_endpoint:
  "(id_ep e \<notin> id_ep ` set (endpoints c) \<longrightarrow>
      fst (add_endpoint c e) = Inr () \<and>
      get_endpoint (snd (add_endpoint c e)) (id_ep e) = Some e) \<and>
   (i \<notin> id_ep ` set (endpoints c) \<longrightarrow> get_endpoint c i = None)"
  by (simp add: add_endpoint_def get_endpoint_def get_endpoint_loop_append
      get_endpoint_loop_None)

theorem get_endpoint_after_add_endpoint_witness:
  "get_endpoint (snd (add_endpoint (example_config\<lparr>endpoints := [api_slow]\<rparr>) api_health))
     ''api_health'' = Some api_health \<and>
   get_endpoint example_config ''missing'' = None"
  using get_endpoint_after_add_endpoint
    [of api_health "example_config\<lparr>endpoints := [api_slow]\<rparr>" "''missing''"]
    get_endpoint_after_add_endpoint [of api_health example_config "''missing''"]
  by (simp add: example_config_def api_health_def api_slow_def)

text \<open>
  C8. When no endpoint has the id, \<open>remove_endpoint\<close> returns False and leaves the
  configuration as it was. When some endpoint has it, the list splits at the first such
  endpoint, \<open>remove_endpoint\<close> returns True, and what remains is the part before it
  followed by the part after it, in their order.
\<close>

theorem remove_endpoint_first_match:
  "(i \<notin> id_ep ` set (endpoints c) \<longrightarrow> remove_endpoint c i = (False, c)) \<and>
   (i \<in> id_ep ` set (endpoints c) \<longrightarrow>
      (\<exists>pre ep post. endpoints c = pre @ ep # post \<and> id_ep ep = i \<and>
         i \<notin> id_ep ` set pre \<and>
         remove_endpoint c i = (True, c\<lparr>endpoints := pre @ post\<rparr>)))"
proof (intro conjI impI)
  assume "i \<notin> id_ep ` set (endpoints c)"
  then show "remove_endpoint c i = (False, c)"
    by (simp add: remove_endpoint_def remove_endpoint_loop_None)
next
  assume "i \<in> id_ep ` set (endpoints c)"
  then have "\<exists>x \<in> set (endpoints c). id_ep x = i"
    by auto
  then obtain pre ep post where
    split: "endpoints c = pre @ ep # post" and hit: "id_ep ep = i"
    and miss: "\<forall>y \<in> set pre. id_ep y \<noteq> i"
    by (auto simp: split_list_first_prop_iff)
  from miss have fresh: "i \<notin> id_ep ` set pre"
    by auto
  have "remove_endpoint_loop (enumerate 0 (endpoints c)) i = Some (length pre)"
    using remove_endpoint_loop_first [OF fresh hit, of 0 post] split by simp
  then have "remove_endpoint c i = (True, c\<lparr>endpoints := pre @ post\<rparr>)"
    by (simp add: remove_endpoint_def split del_at_middle)
  with split hit fresh
  show "\<exists>pre ep post. endpoints c = pre @ ep # post \<and> id_ep ep = i \<and>
         i \<notin> id_ep ` set pre \<and>
         remove_endpoint c i = (True, c\<lparr>endpoints := pre @ post\<rparr>)"
    by blast
qed

theorem remove_endpoint_first_match_witness:
  "remove_endpoint example_config ''missing'' = (False, example_config) \<and>
   (\<exists>pre ep post. endpoints example_config = pre @ ep # post \<and> id_ep ep = ''api_slow'' \<and>
      ''api_slow'' \<notin> id_ep ` set pre \<and>
      remove_endpoint example_config ''api_slow'' =
        (True, example_config\<lparr>endpoints := pre @ post\<rparr>))"
  using remove_endpoint_first_match [of "''missing''" example_config]
    remove_endpoint_first_match [of "''api_slow''" example_config]
  by (simp add: example_config_def api_health_def api_slow_def)

text \<open>
  C4. If the ids of \<open>c.endpoints\<close> are pairwise distinct, they are so after
  \<open>add_endpoint\<close>, whether it returns or raises, and a call that raises leaves the
  configuration as it was; they are so after \<open>remove_endpoint\<close>. Hence every sequence of
  additions and removals that starts from an empty endpoint list ends with distinct ids.
\<close>

theorem endpoint_ids_stay_distinct:
  "(distinct (map id_ep (endpoints c)) \<longrightarrow>
      distinct (map id_ep (endpoints (snd (add_endpoint c e)))) \<and>
      (isl (fst (add_endpoint c e)) \<longrightarrow> snd (add_endpoint c e) = c) \<and>
      distinct (map id_ep (endpoints (snd (remove_endpoint c i))))) \<and>
   (endpoints c0 = [] \<longrightarrow> distinct (map id_ep (endpoints (run_endpoint_ops c0 ops))))"
proof (intro conjI impI)
  assume "distinct (map id_ep (endpoints c))"
  then show "distinct (map id_ep (endpoints (snd (add_endpoint c e))))"
    by (rule add_endpoint_distinct)
next
  assume "isl (fst (add_endpoint c e))"
  then show "snd (add_endpoint c e) = c"
    by (simp add: add_endpoint_def split: if_splits)
next
  assume "distinct (map id_ep (endpoints c))"
  then show "distinct (map id_ep (endpoints (snd (remove_endpoint c i))))"
    by (rule remove_endpoint_distinct)
next
  assume "endpoints c0 = []"
  then have "distinct (map id_ep (endpoints c0))"
    by simp
  then show "distinct (map id_ep (endpoints (run_endpoint_ops c0 ops)))"
    by (rule run_endpoint_ops_distinct)
qed

theorem endpoint_ids_stay_distinct_witness:
  "distinct (map id_ep (endpoints example_config)) \<and>
   isl (fst (add_endpoint example_config api_slow)) \<and>
   snd (add_endpoint example_config api_slow) = example_config \<and>
   distinct (map id_ep (endpoints (snd (remove_endpoint example_config ''api_health'')))) \<and>
   endpoints (example_config\<lparr>endpoints := []\<rparr>) = [] \<and>
   distinct (map id_ep (endpoints (run_endpoint_ops (example_config\<lparr>endpoints := []\<rparr>)
     [Add api_health, Add api_slow, Add api_health, Remove ''api_health'', Add api_health])))"
  using endpoint_ids_stay_distinct [of example_config api_slow "''api_health''"
      "example_config\<lparr>endpoints := []\<rparr>"
      "[Add api_health, Add api_slow, Add api_health, Remove ''api_health'', Add api_health]"]
  by (simp add: example_config_def api_health_def api_slow_def add_endpoint_def)

subsection \<open>Validators\<close>

lemma MonitorConfig_Inr_iff:
  "MonitorConfig upper kw = Inr c \<Longrightarrow>
     (\<exists>level days.
        field_result (kw_log_level kw) ''INFO'' (validate_log_level upper) = Inr level \<and>
        field_result (kw_max_history_days kw) 30 validate_history_days = Inr days \<and>
        log_level c = level \<and> max_history_days c = days)"
  by (auto simp: MonitorConfig_def Let_def split: sum.splits)

lemma MonitorConfig_accepts:
  "field_result (kw_log_level kw) ''INFO'' (validate_log_level upper) = Inr level \<Longrightarrow>
   field_result (kw_max_history_days kw) 30 validate_history_days = Inr days \<Longrightarrow>
     \<exists>c. MonitorConfig upper kw = Inr c \<and> log_level c = level \<and> max_history_days c = days"
  by (simp add: MonitorConfig_def Let_def)

lemma MonitorConfig_rejects:
  "isl (field_result (kw_log_level kw) ''INFO'' (validate_log_level upper)) \<or>
   isl (field_result (kw_max_history_days kw) 30 validate_history_days) \<Longrightarrow>
     \<exists>errs. MonitorConfig upper kw = Inl (ValidationError errs)"
  by (auto simp: MonitorConfig_def Let_def split: sum.splits)

text \<open>
  C5. A \<open>max_history_days\<close> below 1 is rejected: the validator raises a \<open>ValueError\<close>
  and the construction of the \<open>MonitorConfig\<close> fails with a validation error. Every
  value of at least 1 passes the validator unchanged; a configuration constructed with it
  stores it unchanged, and the construction succeeds whenever the log level passed with it
  is valid.
\<close>

theorem max_history_days_at_least_one:
  "(v < 1 \<longrightarrow>
      validate_history_days v = Inl (ValueError ''max_history_days must be at least 1'') \<and>
      (\<exists>errs. MonitorConfig upper (kw\<lparr>kw_max_history_days := Some v\<rparr>) = Inl (ValidationError errs))) \<and>
   (1 \<le> v \<longrightarrow>
      validate_history_days v = Inr v \<and>
      (\<forall>c. MonitorConfig upper (kw\<lparr>kw_max_history_days := Some v\<rparr>) = Inr c \<longrightarrow>
           max_history_days c = v) \<and>
      ((case kw_log_level kw of None \<Rightarrow> True | Some l \<Rightarrow> upper l \<in> set valid_levels) \<longrightarrow>
         (\<exists>c. MonitorConfig upper (kw\<lparr>kw_max_history_days := Some v\<rparr>) = Inr c \<and>
              max_history_days c = v)))"
proof (intro conjI impI allI)
  assume "v < 1"
  then show "validate_history_days v = Inl (ValueError ''max_history_days must be at least 1'')"
    by (simp add: validate_history_days_def)
next
  assume "v < 1"
  then have "isl (field_result (kw_max_history_days (kw\<lparr>kw_max_history_days := Some v\<rparr>)) 30
      validate_history_days)"
    by (simp add: field_result_def validate_history_days_def)
  then show "\<exists>errs. MonitorConfig upper (kw\<lparr>kw_max_history_days := Some v\<rparr>) = Inl (ValidationError errs)"
    by (intro MonitorConfig_rejects) simp
next
  assume "1 \<le> v"
  then show "validate_history_days v = Inr v"
    by (simp add: validate_history_days_def)
next
  fix c
  assume "1 \<le> v" and "MonitorConfig upper (kw\<lparr>kw_max_history_days := Some v\<rparr>) = Inr c"
  then show "max_history_days c = v"
    by (auto dest!: MonitorConfig_Inr_iff simp: field_result_def validate_history_days_def)
next
  assume v: "1 \<le> v"
    and l: "case kw_log_level kw of None \<Rightarrow> True | Some l \<Rightarrow> upper l \<in> set valid_levels"
  let ?kw = "kw\<lparr>kw_max_history_days := Some v\<rparr>"
  from l obtain level where
    "field_result (kw_log_level ?kw) ''INFO'' (validate_log_level upper) = Inr level"
    by (auto simp: field_result_def validate_log_level_def split: option.splits)
  moreover from v have
    "field_result (kw_max_history_days ?kw) 30 validate_history_days = Inr v"
    by (simp add: field_result_def validate_history_days_def)
  ultimately show "\<exists>c. MonitorConfig upper ?kw = Inr c \<and> max_history_days c = v"
    by (blast dest: MonitorConfig_accepts)
qed

theorem max_history_days_at_least_one_witness:
  "(\<exists>errs. MonitorConfig example_upper (no_kwargs\<lparr>kw_max_history_days := Some 0\<rparr>) =
        Inl (ValidationError errs)) \<and>
   (\<exists>c. MonitorConfig example_upper (no_kwargs\<lparr>kw_max_history_days := Some 1\<rparr>) = Inr c \<and>
        max_history_days c = 1)"
  using max_history_days_at_least_one [of 0 example_upper no_kwargs]
    max_history_days_at_least_one [of 1 example_upper no_kwargs]
  by (simp add: no_kwargs_def)

text \<open>
  C9. Whatever the function \<open>upper\<close> is that stands for \<open>str.upper\<close>: the validator
  accepts a log level if and only if its upper-case form is one of DEBUG, INFO, WARNING,
  ERROR, CRITICAL, and returns that upper-case form; two strings with the same upper-case
  form are treated alike. A construction that passes a log level
  succeeds only if it is accepted and then stores the upper-case form, fails with a
  validation error if it is not accepted, and the log level of every constructed
  configuration is one of the five strings.
\<close>

theorem log_level_uppercased:
  "(validate_log_level upper v = Inr s \<longleftrightarrow> upper v \<in> set valid_levels \<and> s = upper v) \<and>
   (isl (validate_log_level upper v) \<longleftrightarrow> upper v \<notin> set valid_levels) \<and>
   (upper v = upper v' \<longrightarrow> validate_log_level upper v = validate_log_level upper v') \<and>
   (\<forall>c. MonitorConfig upper (kw\<lparr>kw_log_level := Some v\<rparr>) = Inr c \<longrightarrow>
        upper v \<in> set valid_levels \<and> log_level c = upper v) \<and>
   (upper v \<notin> set valid_levels \<longrightarrow>
      (\<exists>errs. MonitorConfig upper (kw\<lparr>kw_log_level := Some v\<rparr>) = Inl (ValidationError errs))) \<and>
   (upper v \<in> set valid_levels \<and>
    (case kw_max_history_days kw of None \<Rightarrow> True | Some d \<Rightarrow> 1 \<le> d) \<longrightarrow>
      (\<exists>c. MonitorConfig upper (kw\<lparr>kw_log_level := Some v\<rparr>) = Inr c \<and> log_level c = upper v)) \<and>
   (\<forall>c. MonitorConfig upper kw = Inr c \<longrightarrow>
        log_level c \<in> {''DEBUG'', ''INFO'', ''WARNING'', ''ERROR'', ''CRITICAL''})"
proof (intro conjI impI allI)
  show "validate_log_level upper v = Inr s \<longleftrightarrow> upper v \<in> set valid_levels \<and> s = upper v"
    by (auto simp: validate_log_level_def)
next
  show "isl (validate_log_level upper v) \<longleftrightarrow> upper v \<notin> set valid_levels"
    by (simp add: validate_log_level_def)
next
  assume "upper v = upper v'"
  then show "validate_log_level upper v = validate_log_level upper v'"
    by (simp add: validate_log_level_def)
next
  fix c
  assume ok: "MonitorConfig upper (kw\<lparr>kw_log_level := Some v\<rparr>) = Inr c"
  from MonitorConfig_Inr_iff [OF ok] have "validate_log_level upper v = Inr (log_level c)"
    by (auto simp: field_result_def)
  then show "upper v \<in> set valid_levels" and "log_level c = upper v"
    by (auto simp: validate_log_level_def split: if_splits)
next
  assume "upper v \<notin> set valid_levels"
  then have "isl (field_result (kw_log_level (kw\<lparr>kw_log_level := Some v\<rparr>)) ''INFO''
      (validate_log_level upper))"
    by (simp add: field_result_def validate_log_level_def)
  then show "\<exists>errs. MonitorConfig upper (kw\<lparr>kw_log_level := Some v\<rparr>) = Inl (ValidationError errs)"
    by (intro MonitorConfig_rejects) simp
next
  assume a: "upper v \<in> set valid_levels \<and>
    (case kw_max_history_days kw of None \<Rightarrow> True | Some d \<Rightarrow> 1 \<le> d)"
  let ?kw = "kw\<lparr>kw_log_level := Some v\<rparr>"
  from a have "field_result (kw_log_level ?kw) ''INFO'' (validate_log_level upper) = Inr (upper v)"
    by (simp add: field_result_def validate_log_level_def)
  moreover from a obtain days where
    "field_result (kw_max_history_days ?kw) 30 validate_history_days = Inr days"
    by (auto simp: field_result_def validate_history_days_def split: option.splits)
  ultimately show "\<exists>c. MonitorConfig upper ?kw = Inr c \<and> log_level c = upper v"
    by (blast dest: MonitorConfig_accepts)
next
  fix c
  assume ok: "MonitorConfig upper kw = Inr c"
  from MonitorConfig_Inr_iff [OF ok]
  have "field_result (kw_log_level kw) ''INFO'' (validate_log_level upper) = Inr (log_level c)"
    by auto
  then have "log_level c \<in> set valid_levels"
    by (auto simp: field_result_def validate_log_level_def valid_levels_def
        split: option.splits if_splits)
  then show "log_level c \<in> {''DEBUG'', ''INFO'', ''WARNING'', ''ERROR'', ''CRITICAL''}"
    by (simp add: valid_levels_def)
qed

theorem log_level_uppercased_witness:
  "validate_log_level example_upper ''info'' = Inr ''INFO'' \<and>
   validate_log_level example_upper ''info'' = validate_log_level example_upper ''INFO'' \<and>
   validate_log_level example_upper ([CHR 0xC4, CHR 0xB1] @ ''nfo'') = Inr ''INFO'' \<and>
   (\<exists>c. MonitorConfig example_upper (no_kwargs\<lparr>kw_log_level := Some ''info''\<rparr>) = Inr c \<and>
        log_level c = ''INFO'') \<and>
   isl (validate_log_level example_upper ''verbose'') \<and>
   (\<exists>errs. MonitorConfig example_upper (no_kwargs\<lparr>kw_log_level := Some ''verbose''\<rparr>) =
        Inl (ValidationError errs))"
  using log_level_uppercased [of example_upper "''info''" "''INFO''" "''INFO''" no_kwargs]
    log_level_uppercased [of example_upper "[CHR 0xC4, CHR 0xB1] @ ''nfo''" "''INFO''"
      "''INFO''" no_kwargs]
    log_level_uppercased [of example_upper "''verbose''" "''VERBOSE''" "''verbose''" no_kwargs]
  by (simp add: validate_log_level_def upper_char_def valid_levels_def no_kwargs_def)

subsection \<open>Classification and the rate gate\<close>

text \<open>
  C2. An outcome whose success flag is false is classified UNHEALTHY, whatever its status
  code, latency, body and error are and whatever the endpoint expects.
\<close>

theorem classify_failed_outcome_unhealthy:
  "\<not> success outcome \<Longrightarrow> classify spec outcome = UNHEALTHY"
  by (simp add: classify_def)

theorem classify_failed_outcome_unhealthy_witness:
  "\<not> success failed_outcome \<and> status_code failed_outcome = Some 200 \<and>
   classify api_health failed_outcome = UNHEALTHY"
  using classify_failed_outcome_unhealthy [of failed_outcome api_health]
  by (simp add: failed_outcome_def)






subsection \<open>Loading and saving\<close>

lemma from_file_except_is_ConfigurationError:
  "is_ConfigurationError (from_file_except e)"
  by (cases e) simp_all

lemma is_ConfigurationError_iff: "is_ConfigurationError e \<longleftrightarrow> (\<exists>m. e = ConfigurationError m)"
  by (cases e) simp_all

lemma from_file_Inl:
  "\<forall>x. files w p \<noteq> StatError x \<Longrightarrow> from_file env w p = Inl e \<Longrightarrow> is_ConfigurationError e"
  by (auto simp: from_file_def from_file_except_is_ConfigurationError
      split: file_entry.splits sum.splits)

lemma from_file_StatError:
  "files w p = StatError x \<Longrightarrow> from_file env w p = Inl x"
  by (simp add: from_file_def)

lemma from_file_try_Inr_iff:
  "from_file_try env w p = Inr c \<longleftrightarrow>
     (\<exists>text data. files w p = File text \<and> load_data env p text = Inr data \<and>
        parse_config_data env data = Inr c)"
  by (auto simp: from_file_try_def split: file_entry.splits sum.splits)

lemma from_file_Inr_iff:
  "from_file env w p = Inr c \<longleftrightarrow>
     (\<exists>text data. files w p = File text \<and> load_data env p text = Inr data \<and>
        parse_config_data env data = Inr c)"
proof
  assume "from_file env w p = Inr c"
  then have "from_file_try env w p = Inr c"
    by (auto simp: from_file_def split: file_entry.splits sum.splits)
  then show "\<exists>text data. files w p = File text \<and> load_data env p text = Inr data \<and>
        parse_config_data env data = Inr c"
    by (simp add: from_file_try_Inr_iff)
next
  assume r: "\<exists>text data. files w p = File text \<and> load_data env p text = Inr data \<and>
        parse_config_data env data = Inr c"
  then have "from_file_try env w p = Inr c"
    by (simp add: from_file_try_Inr_iff)
  moreover from r obtain contents where "files w p = File contents"
    by auto
  ultimately show "from_file env w p = Inr c"
    by (simp add: from_file_def)
qed

lemma load_data_yaml:
  "str_lower env (path_suffix env p) \<in> {''.yaml'', ''.yml''} \<Longrightarrow>
     load_data env p text = yaml_safe_load env text"
  by (auto simp: load_data_def)

lemma load_data_json:
  "str_lower env (path_suffix env p) = ''.json'' \<Longrightarrow>
     load_data env p text = json_load env text"
  by (simp add: load_data_def)

lemma from_file_fails:
  assumes "\<forall>x. files w p \<noteq> StatError x" and "\<forall>c. from_file env w p \<noteq> Inr c"
  shows "\<exists>m. from_file env w p = Inl (ConfigurationError m)"
proof (cases "from_file env w p")
  case (Inl e)
  with assms(1) have "is_ConfigurationError e"
    by (rule from_file_Inl)
  with Inl show ?thesis
    by (simp add: is_ConfigurationError_iff)
next
  case (Inr c)
  with assms(2) show ?thesis by simp
qed

text \<open>
  What \<open>from_file\<close> does when the existence test returns: whatever it raises is a
  \<open>ConfigurationError\<close>, and it raises one when the file is missing, when the suffix in
  lower case is none of \<^verbatim>\<open>.yaml\<close>, \<^verbatim>\<open>.yml\<close>, \<^verbatim>\<open>.json\<close>, when the parser for the suffix
  rejects the contents, and when the parsed data fails inside \<open>parse_config_data\<close>. In
  every file system it returns a configuration exactly when the file holds a text that
  the parser for its suffix accepts, and then the one that \<open>parse_config_data\<close> builds.
\<close>

lemma from_file_wraps_when_exists_returns:
  assumes stat: "\<forall>x. files w p \<noteq> StatError x"
  shows "(\<forall>e. from_file env w p = Inl e \<longrightarrow> is_ConfigurationError e) \<and>
   (files w p = Missing \<longrightarrow> (\<exists>m. from_file env w p = Inl (ConfigurationError m))) \<and>
   (str_lower env (path_suffix env p) \<notin> {''.yaml'', ''.yml'', ''.json''} \<longrightarrow>
      (\<exists>m. from_file env w p = Inl (ConfigurationError m))) \<and>
   (files w p = File text \<and> str_lower env (path_suffix env p) \<in> {''.yaml'', ''.yml''} \<and>
    isl (yaml_safe_load env text) \<longrightarrow>
      (\<exists>m. from_file env w p = Inl (ConfigurationError m))) \<and>
   (files w p = File text \<and> str_lower env (path_suffix env p) = ''.json'' \<and>
    isl (json_load env text) \<longrightarrow>
      (\<exists>m. from_file env w p = Inl (ConfigurationError m))) \<and>
   (files w p = File text \<and> load_data env p text = Inr data \<and>
    isl (parse_config_data_try env data) \<longrightarrow>
      (\<exists>m. from_file env w p = Inl (ConfigurationError m))) \<and>
   (\<forall>c. from_file env w p = Inr c \<longleftrightarrow>
      (\<exists>text data. files w p = File text \<and> load_data env p text = Inr data \<and>
         parse_config_data env data = Inr c))"
proof (intro conjI impI allI)
  fix e
  assume "from_file env w p = Inl e"
  with stat show "is_ConfigurationError e"
    by (rule from_file_Inl)
next
  assume "files w p = Missing"
  then show "\<exists>m. from_file env w p = Inl (ConfigurationError m)"
    by (simp add: from_file_def)
next
  assume "str_lower env (path_suffix env p) \<notin> {''.yaml'', ''.yml'', ''.json''}"
  then have "\<And>text data. load_data env p text \<noteq> Inr data"
    by (simp add: load_data_def)
  then have "\<forall>c. from_file env w p \<noteq> Inr c"
    unfolding from_file_Inr_iff by blast
  with stat show "\<exists>m. from_file env w p = Inl (ConfigurationError m)"
    by (rule from_file_fails)
next
  assume a: "files w p = File text \<and>
    str_lower env (path_suffix env p) \<in> {''.yaml'', ''.yml''} \<and>
    isl (yaml_safe_load env text)"
  then have "isl (load_data env p text)"
    by (simp add: load_data_yaml)
  with a have "\<forall>c. from_file env w p \<noteq> Inr c"
    by (auto simp: from_file_Inr_iff isl_def)
  with stat show "\<exists>m. from_file env w p = Inl (ConfigurationError m)"
    by (rule from_file_fails)
next
  assume a: "files w p = File text \<and> str_lower env (path_suffix env p) = ''.json'' \<and>
    isl (json_load env text)"
  then have "isl (load_data env p text)"
    by (simp add: load_data_json)
  with a have "\<forall>c. from_file env w p \<noteq> Inr c"
    by (auto simp: from_file_Inr_iff isl_def)
  with stat show "\<exists>m. from_file env w p = Inl (ConfigurationError m)"
    by (rule from_file_fails)
next
  assume a: "files w p = File text \<and> load_data env p text = Inr data \<and>
    isl (parse_config_data_try env data)"
  then have "isl (parse_config_data env data)"
    by (auto simp: parse_config_data_def split: sum.splits)
  with a have "\<forall>c. from_file env w p \<noteq> Inr c"
    by (auto simp: from_file_Inr_iff isl_def)
  with stat show "\<exists>m. from_file env w p = Inl (ConfigurationError m)"
    by (rule from_file_fails)
next
  fix c
  show "from_file env w p = Inr c \<longleftrightarrow>
      (\<exists>text data. files w p = File text \<and> load_data env p text = Inr data \<and>
         parse_config_data env data = Inr c)"
    by (rule from_file_Inr_iff)
qed

lemma split_slash_no_slash:
  "CHR ''/'' \<notin> set p \<Longrightarrow> split_slash cur p = [rev cur @ p]"
  by (induction p arbitrary: cur) auto

lemma path_name_long_name: "path_name long_name = long_name"
proof -
  have "CHR ''/'' \<notin> set long_name"
    by (auto simp: long_name_def)
  then have "split_slash [] long_name = [long_name]"
    by (simp add: split_slash_no_slash)
  moreover have "long_name \<noteq> []" and "long_name \<noteq> ''.''"
    by (simp_all add: long_name_def)
  ultimately show ?thesis
    by (simp add: path_name_def)
qed

lemma files_long_name:
  "files example_world long_name =
     StatError (OSError (''[Errno 36] File name too long: '' @
                           [CHR 0x27] @ long_name @ [CHR 0x27]))"
proof -
  have "length (path_name long_name) = 305"
    by (simp add: path_name_long_name) (simp add: long_name_def)
  then show ?thesis
    by (simp add: example_world_def)
qed

text \<open>
  C3. \<open>from_file\<close> is to raise a \<open>ConfigurationError\<close>, and no other exception, for a
  file that does not exist. The existence test stands before the \<open>try\<close>: for a file
  name of 305 bytes, which no file can have, \<open>stat\<close> fails with ENAMETOOLONG,
  \<open>Path.exists()\<close> raises that \<open>OSError\<close> again, and \<open>from_file\<close> raises it, not a
  \<open>ConfigurationError\<close>.
\<close>

theorem from_file_leaks_OSError:
  "from_file example_env example_world long_name =
     Inl (OSError (''[Errno 36] File name too long: '' @
                     [CHR 0x27] @ long_name @ [CHR 0x27])) \<and>
   \<not> is_ConfigurationError
       (OSError (''[Errno 36] File name too long: '' @ [CHR 0x27] @ long_name @ [CHR 0x27]))"
  by (simp add: from_file_StatError [OF files_long_name])

lemma example_suffixes:
  "example_suffix ''nowhere.yaml'' = ''.yaml''"
  "example_suffix ''conf/notes.txt'' = ''.txt''"
  "example_suffix ''conf/broken.json'' = ''.json''"
  "example_suffix ''conf/loud.yml'' = ''.yml''"
  "example_suffix ''conf/monitor.yaml'' = ''.yaml''"
  "example_suffix ''conf/monitor.yaml/.'' = ''.yaml''"
  "example_suffix ''conf/out.JSON'' = ''.JSON''"
  "example_suffix ''conf'' = []"
  by (simp_all add: example_suffix_def suffix_of_name_def path_name_def)

lemma example_names:
  "path_name ''nowhere.yaml'' = ''nowhere.yaml''"
  "path_name ''conf/notes.txt'' = ''notes.txt''"
  "path_name ''conf/broken.json'' = ''broken.json''"
  "path_name ''conf/loud.yml'' = ''loud.yml''"
  "path_name ''conf/monitor.yaml'' = ''monitor.yaml''"
  "path_name ''conf/out.JSON'' = ''out.JSON''"
  "path_name ''conf'' = ''conf''"
  by (simp_all add: path_name_def)

lemma example_lower_values:
  "example_lower ''.yaml'' = ''.yaml''"
  "example_lower ''.txt'' = ''.txt''"
  "example_lower ''.json'' = ''.json''"
  "example_lower ''.yml'' = ''.yml''"
  "example_lower ''.JSON'' = ''.json''"
  "example_lower [] = []"
  by (simp_all add: example_lower_def lower_char_def)

lemma example_env_fields:
  "str_upper example_env = example_upper"
  "str_lower example_env = example_lower"
  "path_suffix example_env = example_suffix"
  "yaml_safe_load example_env ''good'' = Inr example_data"
  "yaml_safe_load example_env ''loud'' = Inr (PyDict [(''log_level'', PyStr ''loud'')])"
  "json_load example_env ''{'' = Inl (JSONDecodeError ''bad'')"
  by (simp_all add: example_env_def)

lemma example_files:
  "files example_world ''nowhere.yaml'' = Missing"
  "files example_world ''conf/notes.txt'' = File ''good''"
  "files example_world ''conf/broken.json'' = File ''{''"
  "files example_world ''conf/loud.yml'' = File ''loud''"
  "files example_world ''conf/monitor.yaml'' = File ''good''"
  by (simp_all add: example_world_def example_names)

lemma example_parse_good:
  "parse_config_data example_env example_data =
     MonitorConfig example_upper
       (no_kwargs\<lparr>kw_log_level := Some ''debug'', kw_endpoints := Some [api_health],
          kw_notifications := Some []\<rparr>)"
  by (simp add: parse_config_data_def parse_config_data_try_def py_get_def py_iter_def
      py_items_def py_kwargs_def example_env_def example_data_def api_health_def
      MonitorConfig_def field_result_def validate_log_level_def upper_char_def
      valid_levels_def no_kwargs_def Let_def)

lemma example_parse_loud:
  "isl (parse_config_data_try example_env (PyDict [(''log_level'', PyStr ''loud'')]))"
  by (simp add: parse_config_data_try_def py_get_def py_iter_def
      py_items_def py_kwargs_def example_env_def
      MonitorConfig_def field_result_def validate_log_level_def upper_char_def
      valid_levels_def no_kwargs_def Let_def)

text \<open>The same file system on paths that can be looked up.\<close>

lemma from_file_examples:
  "from_file example_env example_world ''nowhere.yaml'' =
     Inl (ConfigurationError ''Configuration file not found: nowhere.yaml'') \<and>
   from_file example_env example_world ''conf/notes.txt'' =
     Inl (ConfigurationError ''Error reading config file: Unsupported file format: .txt'') \<and>
   from_file example_env example_world ''conf/broken.json'' =
     Inl (ConfigurationError ''Invalid JSON in config file: bad'') \<and>
   (\<exists>m. from_file example_env example_world ''conf/loud.yml'' = Inl (ConfigurationError m)) \<and>
   (\<exists>c. from_file example_env example_world ''conf/monitor.yaml'' = Inr c \<and>
        parse_config_data example_env example_data = Inr c \<and> log_level c = ''DEBUG'')"
proof -
  have loud: "\<exists>m. from_file example_env example_world ''conf/loud.yml'' =
      Inl (ConfigurationError m)"
    using from_file_wraps_when_exists_returns
      [of example_world "''conf/loud.yml''" example_env "''loud''"
        "PyDict [(''log_level'', PyStr ''loud'')]"]
    by (simp add: example_files example_suffixes example_lower_values example_env_fields
        example_parse_loud load_data_def)
  have good: "\<exists>c. from_file example_env example_world ''conf/monitor.yaml'' = Inr c \<and>
        parse_config_data example_env example_data = Inr c \<and> log_level c = ''DEBUG''"
    using from_file_wraps_when_exists_returns
      [of example_world "''conf/monitor.yaml''" example_env "''good''" example_data]
    by (simp add: example_files example_suffixes example_lower_values example_env_fields
        example_parse_good load_data_def MonitorConfig_def field_result_def
        validate_log_level_def upper_char_def valid_levels_def no_kwargs_def)
  have rest: "from_file example_env example_world ''nowhere.yaml'' =
     Inl (ConfigurationError ''Configuration file not found: nowhere.yaml'') \<and>
   from_file example_env example_world ''conf/notes.txt'' =
     Inl (ConfigurationError ''Error reading config file: Unsupported file format: .txt'') \<and>
   from_file example_env example_world ''conf/broken.json'' =
     Inl (ConfigurationError ''Invalid JSON in config file: bad'')"
    by (simp add: from_file_def from_file_try_def load_data_def example_files
        example_suffixes example_lower_values example_env_fields)
  from rest loud good show ?thesis
    by blast
qed

lemma to_file_try_unsupported:
  "str_lower env (path_suffix env p) \<notin> {''.yaml'', ''.yml'', ''.json''} \<Longrightarrow>
     isl (fst (to_file_try env w data p))"
  by (simp add: to_file_try_def Let_def split: option.splits)

text \<open>
  C10. Whatever \<open>to_file\<close> raises is a \<open>ConfigurationError\<close>, and it always raises one
  for a path whose suffix (compared in lower case, as the source compares it) is none of
  \<^verbatim>\<open>.yaml\<close>, \<^verbatim>\<open>.yml\<close>, \<^verbatim>\<open>.json\<close>.
\<close>

theorem to_file_raises_only_ConfigurationError:
  "(\<forall>e. fst (to_file env w c p) = Inl e \<longrightarrow> is_ConfigurationError e) \<and>
   (str_lower env (path_suffix env p) \<notin> {''.yaml'', ''.yml'', ''.json''} \<longrightarrow>
      (\<exists>m. fst (to_file env w c p) = Inl (ConfigurationError m)))"
proof (intro conjI impI allI)
  fix e
  assume "fst (to_file env w c p) = Inl e"
  then show "is_ConfigurationError e"
    by (auto simp: to_file_def Let_def split: prod.splits sum.splits)
next
  assume "str_lower env (path_suffix env p) \<notin> {''.yaml'', ''.yml'', ''.json''}"
  then have "isl (fst (to_file_try env w (model_dict env c) p))"
    by (rule to_file_try_unsupported)
  then show "\<exists>m. fst (to_file env w c p) = Inl (ConfigurationError m)"
    by (auto simp: to_file_def Let_def isl_def split: prod.splits sum.splits)
qed

theorem to_file_raises_only_ConfigurationError_witness:
  "fst (to_file example_env example_world example_config ''conf/notes.txt'') =
     Inl (ConfigurationError ''Error writing config file: Unsupported file format: .txt'') \<and>
   fst (to_file example_env example_world example_config ''conf'') =
     Inl (ConfigurationError ''Error writing config file: Is a directory'') \<and>
   fst (to_file example_env example_world example_config ''conf/out.JSON'') = Inr ()"
  using to_file_raises_only_ConfigurationError
      [of example_env example_world example_config "''conf/notes.txt''"]
  by (simp add: to_file_def to_file_try_def dump_result_def write_file_def
      example_suffixes example_lower_values example_env_def example_world_def Let_def)

end
